theory Spec2Isabelle
  imports Main "HOL-Library.Word"
begin

section \<open>JavaScript values\<close>

text \<open>
  The builder of \<^verbatim>\<open>src/lftp.js\<close> is dynamically typed: every argument may be any
  JavaScript value, and the code branches on truthiness, on \<^verbatim>\<open>typeDetect\<close> and on
  \<^verbatim>\<open>hasOwnProperty\<close>. The values are modelled by one datatype.

  \<^item> A string is a list of UTF-16 code units, each a 16-bit word; a literal of the
    source is written \<^verbatim>\<open>str ''...''\<close>, the list of the codes of its characters.
  \<^item> A number is an \<^typ>\<open>int\<close>: the integers that JavaScript prints as a plain
    decimal numeral (no fractions, no \<^verbatim>\<open>NaN\<close>, no infinities).
  \<^item> An object is the list of its own data properties, none of them named
    \<^verbatim>\<open>toString\<close>, \<^verbatim>\<open>valueOf\<close> or \<^verbatim>\<open>hasOwnProperty\<close>; properties reached
    through a prototype, accessors and function values are outside the model.
\<close>

type_synonym ustring = "16 word list"

definition str :: "string \<Rightarrow> ustring" where
  "str s = map of_char s"

datatype jsval =
    JUndefined
  | JNull
  | JBool bool
  | JNum int
  | JStr ustring
  | JArr "jsval list"
  | JObj "(ustring \<times> jsval) list"

type_synonym props = "(ustring \<times> jsval) list"

text \<open>Truthiness, as \<^verbatim>\<open>if (v)\<close>, \<^verbatim>\<open>!v\<close> and \<^verbatim>\<open>a || b\<close> test it.\<close>

fun truthy :: "jsval \<Rightarrow> bool" where
  "truthy JUndefined = False"
| "truthy JNull = False"
| "truthy (JBool b) = b"
| "truthy (JNum n) = (n \<noteq> 0)"
| "truthy (JStr s) = (s \<noteq> [])"
| "truthy (JArr xs) = True"
| "truthy (JObj ps) = True"

definition js_or :: "jsval \<Rightarrow> jsval \<Rightarrow> jsval" where
  "js_or a b = (if truthy a then a else b)"

text \<open>\<^verbatim>\<open>typeDetect(v) === 'string'\<close>.\<close>

fun is_string :: "jsval \<Rightarrow> bool" where
  "is_string (JStr s) = True"
| "is_string v = False"

text \<open>\<^verbatim>\<open>opts.hasOwnProperty(k)\<close> and \<^verbatim>\<open>opts.k\<close> on a plain object.\<close>

definition hasOwnProperty :: "props \<Rightarrow> ustring \<Rightarrow> bool" where
  "hasOwnProperty opts k = (map_of opts k \<noteq> None)"

definition getprop :: "props \<Rightarrow> ustring \<Rightarrow> jsval" where
  "getprop opts k = (case map_of opts k of Some v \<Rightarrow> v | None \<Rightarrow> JUndefined)"

text \<open>Joining strings with a separator, the last step of \<^verbatim>\<open>Array.prototype.join\<close>.\<close>

fun join :: "ustring \<Rightarrow> ustring list \<Rightarrow> ustring" where
  "join sep [] = []"
| "join sep [x] = x"
| "join sep (x # y # ys) = x @ sep @ join sep (y # ys)"

text \<open>Decimal numerals.\<close>

fun string_of_nat :: "nat \<Rightarrow> string" where
  "string_of_nat n =
     (if n < 10 then [''0123456789'' ! n]
      else string_of_nat (n div 10) @ [''0123456789'' ! (n mod 10)])"

declare string_of_nat.simps [simp del]

text \<open>
  \<^verbatim>\<open>String(v)\<close>, the conversion a template literal \<^verbatim>\<open>`${v}`\<close> applies. An array is
  joined with commas, where \<^verbatim>\<open>undefined\<close> and \<^verbatim>\<open>null\<close> elements give the empty
  string.
\<close>

fun toStr :: "jsval \<Rightarrow> ustring" where
  "toStr JUndefined = str ''undefined''"
| "toStr JNull = str ''null''"
| "toStr (JBool b) = (if b then str ''true'' else str ''false'')"
| "toStr (JNum n) =
     str (if n < 0 then CHR ''-'' # string_of_nat (nat (- n)) else string_of_nat (nat n))"
| "toStr (JStr s) = s"
| "toStr (JArr xs) =
     join (str '','')
       (map (\<lambda>x. case x of JUndefined \<Rightarrow> [] | JNull \<Rightarrow> [] | _ \<Rightarrow> toStr x) xs)"
| "toStr (JObj ps) = str ''[object Object]''"

text \<open>\<^verbatim>\<open>xs.join(sep)\<close> on an array of arbitrary values.\<close>

definition join_elem :: "jsval \<Rightarrow> ustring" where
  "join_elem x = (case x of JUndefined \<Rightarrow> [] | JNull \<Rightarrow> [] | _ \<Rightarrow> toStr x)"

definition array_join :: "ustring \<Rightarrow> jsval list \<Rightarrow> ustring" where
  "array_join sep xs = join sep (map join_elem xs)"

text \<open>\<^verbatim>\<open>_includes(xs, v)\<close> of lodash on an array of strings: strict equality.\<close>

definition lodash_includes :: "ustring list \<Rightarrow> jsval \<Rightarrow> bool" where
  "lodash_includes xs v = (case v of JStr s \<Rightarrow> s \<in> set xs | _ \<Rightarrow> False)"

text \<open>
  \<^verbatim>\<open>s.toLowerCase()\<close>. On code units below 256 the letters A to Z and the Latin-1
  capitals (0xC0 to 0xDE without the multiplication sign 0xD7) move up by 32. The case
  mapping of Unicode beyond Latin-1 is outside the model: a code unit from 256 on is
  kept. The constructor calls \<^verbatim>\<open>toLowerCase\<close> only on a protocol that passed
  \<^verbatim>\<open>validateOptions\<close> or on the default, which are ASCII.
\<close>

definition lower_unit :: "16 word \<Rightarrow> 16 word" where
  "lower_unit c =
     (if (0x41 \<le> c \<and> c \<le> 0x5A) \<or> (0xC0 \<le> c \<and> c \<le> 0xDE \<and> c \<noteq> 0xD7)
      then c + 0x20 else c)"

definition toLowerCase :: "ustring \<Rightarrow> ustring" where
  "toLowerCase s = map lower_unit s"

section \<open>The shell escaper\<close>

text \<open>
  The character class of the regular expression
  \<^verbatim>\<open>/(["\s'$`\[\]\\])/g\<close>. The expression has no \<^verbatim>\<open>u\<close> flag, so it matches code
  unit by code unit. The class \<^verbatim>\<open>\s\<close> of ECMAScript is the white space and the line
  terminators: tab, line feed, vertical tab, form feed, carriage return, space, the
  no-break space, U+1680, U+2000 to U+200A, U+2028, U+2029, U+202F, U+205F, U+3000 and
  U+FEFF.
\<close>

definition js_whitespace :: "16 word \<Rightarrow> bool" where
  "js_whitespace c =
     (c = 0x09 \<or> c = 0x0A \<or> c = 0x0B \<or> c = 0x0C \<or> c = 0x0D \<or> c = 0x20 \<or> c = 0xA0
      \<or> c = 0x1680 \<or> (0x2000 \<le> c \<and> c \<le> 0x200A) \<or> c = 0x2028 \<or> c = 0x2029
      \<or> c = 0x202F \<or> c = 0x205F \<or> c = 0x3000 \<or> c = 0xFEFF)"

text \<open>
  The class: double quote (0x22), \<^verbatim>\<open>\s\<close>, single quote (0x27), dollar sign (0x24),
  backtick (0x60), the two brackets (0x5B, 0x5D) and the backslash (0x5C).
\<close>

definition special :: "16 word \<Rightarrow> bool" where
  "special c =
     (c = 0x22 \<or> js_whitespace c \<or> c = 0x27 \<or> c = 0x24 \<or> c = 0x60
      \<or> c = 0x5B \<or> c = 0x5D \<or> c = 0x5C)"

text \<open>
  \<^verbatim>\<open>cmd.replace(/(...)/g, '\\$1')\<close>: the string is scanned from the left; where the
  class matches, the match is replaced by a backslash and the matched code unit, and the
  scan goes on behind the match; any other code unit is copied.
\<close>

fun replace_special :: "ustring \<Rightarrow> ustring" where
  "replace_special [] = []"
| "replace_special (c # cs) =
     (if special c then 0x5C # c # replace_special cs else c # replace_special cs)"

definition escapeShell :: "jsval \<Rightarrow> jsval" where
  "escapeShell cmd =
     (if \<not> is_string cmd then JStr []
      else JStr (replace_special (toStr cmd)))"

section \<open>The builder\<close>

text \<open>
  \<^verbatim>\<open>this.options\<close>, \<^verbatim>\<open>this.spawnOptions\<close> and \<^verbatim>\<open>this.cmds\<close>. The host is the
  result of a template literal and the protocol the result of \<^verbatim>\<open>toLowerCase\<close>, so
  both are strings; every other option keeps the value the caller gave. The queue holds
  what \<^verbatim>\<open>raw\<close> pushed: strings.
\<close>

record options =
  host :: ustring
  username :: jsval
  password :: jsval
  protocol :: ustring
  escape :: jsval
  retries :: jsval
  timeout :: jsval
  retryInterval :: jsval
  retryIntervalMultiplier :: jsval
  autoConfirm :: jsval

record builder =
  options :: options
  spawnOptions :: props
  cmds :: "ustring list"

text \<open>
  What a call throws: the \<^verbatim>\<open>Error\<close> of \<^verbatim>\<open>fail\<close> with its message, or the
  \<^verbatim>\<open>TypeError\<close> of the runtime.
\<close>

datatype error = Error ustring | TypeError string

text \<open>
  \<^verbatim>\<open>validateOptions(opts)\<close>: \<^verbatim>\<open>fail\<close> throws, so the first failing check ends the
  call.
\<close>

definition validateOptions :: "props \<Rightarrow> error + unit" where
  "validateOptions opts =
     (if \<not> hasOwnProperty opts (str ''host'')
        then Inl (Error (str ''LFTP opts must include host''))
      else if \<not> hasOwnProperty opts (str ''username'')
        then Inl (Error (str ''LFTP opts must include username''))
      else
        let requiresPassword = js_or (getprop opts (str ''requiresPassword'')) (JBool True)
        in if truthy requiresPassword \<and> \<not> hasOwnProperty opts (str ''password'')
             then Inl (Error (str ''LFTP opts must include password''))
           else if hasOwnProperty opts (str ''protocol'')
                   \<and> \<not> lodash_includes [str ''ftp'', str ''sftp'', str ''ftps'']
                         (getprop opts (str ''protocol''))
             then Inl (Error (str ''LFTP opts.protocol must be ftp, sftp, or ftps.''))
           else Inr ())"

text \<open>
  \<^verbatim>\<open>new LFTP(opts)\<close>. Calling \<^verbatim>\<open>toLowerCase\<close> on a value that is not a string is a
  \<^verbatim>\<open>TypeError\<close>.
\<close>

definition LFTP :: "props \<Rightarrow> error + builder" where
  "LFTP opts =
     (case validateOptions opts of
        Inl e \<Rightarrow> Inl e
      | Inr _ \<Rightarrow>
          (case js_or (getprop opts (str ''protocol'')) (JStr (str ''sftp'')) of
             JStr p \<Rightarrow>
               let protocol = toLowerCase p;
                   port = js_or (getprop opts (str ''port'')) (JNum 22);
                   host = protocol @ str ''://'' @ toStr (getprop opts (str ''host''))
                          @ str '':'' @ toStr port
               in Inr \<lparr>options = \<lparr>
                      host = host,
                      username = getprop opts (str ''username''),
                      password = js_or (getprop opts (str ''password'')) (JStr []),
                      protocol = protocol,
                      escape = (if hasOwnProperty opts (str ''escape'')
                                then getprop opts (str ''escape'') else JBool True),
                      retries = js_or (getprop opts (str ''retries'')) (JNum 1),
                      timeout = js_or (getprop opts (str ''timeout'')) (JNum 10),
                      retryInterval = js_or (getprop opts (str ''retryInterval'')) (JNum 5),
                      retryIntervalMultiplier =
                        js_or (getprop opts (str ''retryIntervalMultiplier'')) (JNum 1),
                      autoConfirm = (if hasOwnProperty opts (str ''autoConfirm'')
                                     then getprop opts (str ''autoConfirm'') else JBool False)\<rparr>,
                    spawnOptions = (if hasOwnProperty opts (str ''cwd'')
                                    then [(str ''cwd'', getprop opts (str ''cwd''))] else []),
                    cmds = []\<rparr>
           | _ \<Rightarrow> Inl (TypeError ''toLowerCase is not a function'')))"

text \<open>\<^verbatim>\<open>_escapeShell(cmd)\<close>, the escaper that looks at \<^verbatim>\<open>this.options.escape\<close>.\<close>

definition priv_escapeShell :: "builder \<Rightarrow> jsval \<Rightarrow> jsval" where
  "priv_escapeShell b cmd =
     (if truthy (escape (options b)) then escapeShell cmd else cmd)"

text \<open>\<^verbatim>\<open>baseCmd()\<close>: the statements of the preamble, in the order they are pushed.\<close>

definition baseCmd :: "builder \<Rightarrow> ustring list" where
  "baseCmd b =
     (if protocol (options b) = str ''sftp'' \<and> truthy (autoConfirm (options b))
      then [str ''set sftp:auto-confirm yes''] else [])
     @ [str ''set net:max-retries '' @ toStr (retries (options b)),
        str ''set net:timeout '' @ toStr (timeout (options b)),
        str ''set net:reconnect-interval-base '' @ toStr (retryInterval (options b)),
        str ''set net:reconnect-interval-multiplier ''
          @ toStr (retryIntervalMultiplier (options b)),
        str (''open -u '' @ [CHR 0x22]) @ toStr (priv_escapeShell b (username (options b)))
          @ str [CHR 0x22, CHR '','', CHR 0x22]
          @ toStr (priv_escapeShell b (password (options b)))
          @ str [CHR 0x22, CHR '' '', CHR 0x22] @ host (options b) @ str [CHR 0x22]]"

text \<open>
  \<^verbatim>\<open>exec(extraCmds)\<close> up to the call of \<^verbatim>\<open>this.spawn\<close>: the model returns the three
  arguments of that call (the program, its argument list and the spawn options) and the
  builder with its queue emptied. The child process and the promise are outside the
  model.
\<close>

record spawn_call =
  program :: ustring
  arguments :: "ustring list"
  spawn_opts :: props

definition exec :: "jsval \<Rightarrow> builder \<Rightarrow> spawn_call \<times> builder" where
  "exec extraCmds b =
     (let cmd = map JStr (baseCmd b);
          cmd = (case extraCmds of
                   JStr s \<Rightarrow> cmd @ [extraCmds]
                 | JArr xs \<Rightarrow> cmd @ xs
                 | _ \<Rightarrow> cmd);
          cmd = cmd @ map JStr (cmds b);
          b' = b\<lparr>cmds := []\<rparr>;
          cmdString = array_join (str '';'') cmd
      in (\<lparr>program = str ''lftp'', arguments = [str ''-c'', cmdString],
           spawn_opts = spawnOptions b'\<rparr>, b'))"

text \<open>
  The result of a builder call: it returns \<^verbatim>\<open>this\<close> or \<^verbatim>\<open>undefined\<close>, or it
  throws; in each case the builder is in the state the call left it in. The third
  result stands for the few calls whose behaviour is outside the model; they are named
  where they arise.
\<close>

datatype returned = This | Undefined

datatype outcome = Return returned builder | Throw error builder | Unmodelled

definition fail :: "ustring \<Rightarrow> builder \<Rightarrow> outcome" where
  "fail msg b = Throw (Error msg) b"

definition raw :: "jsval \<Rightarrow> builder \<Rightarrow> outcome" where
  "raw cmd b =
     (case cmd of
        JStr s \<Rightarrow> Return This (b\<lparr>cmds := cmds b @ [s]\<rparr>)
      | _ \<Rightarrow> Return This b)"

section \<open>The subcommand builders\<close>

text \<open>
  Each builder takes its positional arguments as values, an omitted one being
  \<^verbatim>\<open>undefined\<close>; a rest parameter is the list of the arguments given; an options
  parameter with the default \<^verbatim>\<open>{}\<close> is the list of the own properties of the object
  given (empty when omitted). The array \<^verbatim>\<open>cmd\<close> of a builder is the list of the values
  pushed, in the order of the pushes, and \<^verbatim>\<open>push_if\<close> is a push under an \<^verbatim>\<open>if\<close>.
\<close>

definition push_if :: "bool \<Rightarrow> jsval \<Rightarrow> jsval list" where
  "push_if c v = (if c then [v] else [])"

definition alias_cmd :: "jsval \<Rightarrow> jsval \<Rightarrow> builder \<Rightarrow> outcome" where
  "alias_cmd name val b =
     (if \<not> truthy name then raw (JStr (str ''alias'')) b
      else if \<not> truthy val
        then raw (JStr (str ''alias '' @ toStr (priv_escapeShell b name))) b
      else raw (JStr (str ''alias '' @ toStr (priv_escapeShell b name) @ str '' ''
                      @ toStr (priv_escapeShell b val))) b)"

definition at :: "jsval \<Rightarrow> builder \<Rightarrow> outcome" where
  "at time b =
     (if \<not> truthy time then fail (str ''at() requires time argument'') b
      else raw (JStr (str ''at '' @ toStr (priv_escapeShell b time))) b)"

definition attach :: "jsval \<Rightarrow> builder \<Rightarrow> outcome" where
  "attach pid b =
     (if \<not> truthy pid then fail (str ''attach() requires pid argument'') b
      else raw (JStr (str ''attach '' @ toStr pid)) b)"

definition bookmark :: "jsval \<Rightarrow> props \<Rightarrow> builder \<Rightarrow> outcome" where
  "bookmark subCmd opts b =
     (let cmd = [JStr (str ''bookmark'')] in
      case
        (if subCmd = JStr (str ''add'') then
           (if hasOwnProperty opts (str ''name'')
            then Inr (cmd @ [JStr (str ''add ''
                                   @ toStr (priv_escapeShell b (getprop opts (str ''name''))))]
                      @ push_if (hasOwnProperty opts (str ''loc''))
                          (priv_escapeShell b (getprop opts (str ''loc''))))
            else Inl (str ''bookmark(add) opts argument requires name property''))
         else if subCmd = JStr (str ''del'') then
           (if hasOwnProperty opts (str ''name'')
            then Inr (cmd @ [JStr (str ''del ''
                                   @ toStr (priv_escapeShell b (getprop opts (str ''name''))))])
            else Inl (str ''bookmark(del) opts argument requires name property''))
         else if subCmd = JStr (str ''edit'') then Inr (cmd @ [JStr (str ''edit'')])
         else if subCmd = JStr (str ''import'') then
           (if hasOwnProperty opts (str ''type'')
            then Inr (cmd @ [JStr (str ''import ''
                                   @ toStr (priv_escapeShell b (getprop opts (str ''type''))))])
            else Inl (str ''bookmark(import) opts argument requires type property''))
         else if subCmd = JStr (str ''list'') then Inr (cmd @ [JStr (str ''list'')])
         else Inl (str ''bookmark() requires subCmd argument''))
      of Inl msg \<Rightarrow> fail msg b
       | Inr cmd \<Rightarrow> raw (JStr (array_join (str '' '') cmd)) b)"

definition cache :: "jsval \<Rightarrow> props \<Rightarrow> builder \<Rightarrow> outcome" where
  "cache subCmd opts b =
     (let cmd = [JStr (str ''cache'')] in
      case
        (if subCmd = JStr (str ''stat'') \<or> subCmd = JStr (str ''on'') \<or> subCmd = JStr (str ''off'')
            \<or> subCmd = JStr (str ''flush'')
         then Inr (cmd @ [subCmd])
         else if subCmd = JStr (str ''size'') then
           (if hasOwnProperty opts (str ''lim'')
            then Inr (cmd @ [JStr (str ''size '' @ toStr (getprop opts (str ''lim'')))])
            else Inl (str ''cache(size) opts argument requires lim property''))
         else if subCmd = JStr (str ''expire'') then
           (if hasOwnProperty opts (str ''n'') \<and> hasOwnProperty opts (str ''unit'')
               \<and> lodash_includes [str ''s'', str ''m'', str ''h'', str ''d'']
                     (getprop opts (str ''unit''))
            then Inr (cmd @ [JStr (str ''expire '' @ toStr (getprop opts (str ''n''))
                                   @ toStr (getprop opts (str ''unit'')))])
            else Inl (str ''cache(expire) opts argument requires n and unit properties''))
         else Inl (str ''cache() requires subCmd argument''))
      of Inl msg \<Rightarrow> fail msg b
       | Inr cmd \<Rightarrow> raw (JStr (array_join (str '' '') cmd)) b)"

definition cat :: "jsval \<Rightarrow> builder \<Rightarrow> outcome" where
  "cat path b =
     (if \<not> truthy path then fail (str ''cat() requires path argument'') b
      else raw (JStr (str ''cat '' @ toStr (priv_escapeShell b path))) b)"

definition cd :: "jsval \<Rightarrow> builder \<Rightarrow> outcome" where
  "cd dir b =
     (if \<not> truthy dir then fail (str ''cd() requires dir argument'') b
      else raw (JStr (str ''cd '' @ toStr (priv_escapeShell b dir))) b)"

definition chmod :: "jsval \<Rightarrow> jsval list \<Rightarrow> builder \<Rightarrow> outcome" where
  "chmod mode files b =
     (if \<not> truthy mode then fail (str ''chmod() requires mode argument'') b
      else if length files = 0 then fail (str ''chmod() requires files argument(s)'') b
      else
        let filesStr = array_join (str '' '') (map (priv_escapeShell b) files)
        in raw (JStr (str ''chmod '' @ toStr mode @ str '' '' @ filesStr)) b)"

text \<open>The parameter of \<^verbatim>\<open>close\<close> has the default \<^verbatim>\<open>false\<close>.\<close>

definition close :: "jsval \<Rightarrow> builder \<Rightarrow> outcome" where
  "close all b =
     (let all = (if all = JUndefined then JBool False else all);
          cmd = [JStr (str ''close'')] @ push_if (truthy all) (JStr (str ''-a''))
      in raw (JStr (array_join (str '' '') cmd)) b)"

definition cls :: "props \<Rightarrow> builder \<Rightarrow> outcome" where
  "cls opts b =
     (let cmd = [JStr (str ''cls'')]
                @ push_if (truthy (getprop opts (str ''singleColumn''))) (JStr (str ''-1''))
                @ push_if (truthy (getprop opts (str ''dirsFirst''))) (JStr (str ''-D''))
      in raw (JStr (array_join (str '' '') cmd)) b)"

definition debug :: "jsval \<Rightarrow> props \<Rightarrow> builder \<Rightarrow> outcome" where
  "debug level opts b =
     (if \<not> truthy level then fail (str ''debug() requires level argument'') b
      else if is_string level \<and> level \<noteq> JStr (str ''off'')
        then fail (str (''debug() level argument must be a number or '' @ [CHR 0x22] @ ''off''
                        @ [CHR 0x22])) b
      else
        let cmd = [JStr (str ''debug'')]
                  @ push_if (hasOwnProperty opts (str ''truncate'')) (JStr (str ''-T''))
                  @ push_if (hasOwnProperty opts (str ''outputFile''))
                      (JStr (str ''-o '' @ toStr (priv_escapeShell b (getprop opts (str ''outputFile'')))))
                  @ push_if (hasOwnProperty opts (str ''context'')) (JStr (str ''-c''))
                  @ push_if (hasOwnProperty opts (str ''pid'')) (JStr (str ''-p''))
                  @ push_if (hasOwnProperty opts (str ''timestamps'')) (JStr (str ''-t''))
                  @ [level]
        in raw (JStr (array_join (str '' '') cmd)) b)"

definition echo :: "jsval \<Rightarrow> builder \<Rightarrow> outcome" where
  "echo text b = raw (JStr (str ''echo '' @ toStr (priv_escapeShell b text))) b"

definition edit :: "jsval \<Rightarrow> props \<Rightarrow> builder \<Rightarrow> outcome" where
  "edit file opts b =
     (if \<not> truthy file then fail (str ''edit() requires file argument'') b
      else if \<not> is_string file then fail (str ''edit() file argument must be a string'') b
      else
        let cmd = [JStr (str ''edit'')]
                  @ push_if (truthy (getprop opts (str ''keepTempFile''))) (JStr (str ''-k''))
                  @ push_if (hasOwnProperty opts (str ''tempFileLocation''))
                      (JStr (str ''-o '' @ toStr (getprop opts (str ''tempFileLocation''))))
                  @ [priv_escapeShell b file]
        in raw (JStr (array_join (str '' '') cmd)) b)"

definition eval_cmd :: "jsval \<Rightarrow> props \<Rightarrow> builder \<Rightarrow> outcome" where
  "eval_cmd args opts b =
     (if \<not> truthy args then fail (str ''eval() requires args argument'') b
      else
        let cmd = [JStr (str ''eval'')]
                  @ push_if (hasOwnProperty opts (str ''format''))
                      (JStr (str ''-f '' @ toStr (getprop opts (str ''format''))))
                  @ [args]
        in raw (JStr (array_join (str '' '') cmd)) b)"

text \<open>
  \<^verbatim>\<open>exit\<close> ends with the statement \<^verbatim>\<open>this.raw(cmd.join(' '))\<close>, without
  \<^verbatim>\<open>return\<close>: the result of \<^verbatim>\<open>raw\<close> is dropped and the call returns
  \<^verbatim>\<open>undefined\<close>.
\<close>

definition exit :: "jsval \<Rightarrow> props \<Rightarrow> builder \<Rightarrow> outcome" where
  "exit subCmd opts b =
     (let cmd = [JStr (str ''exit'')] in
      case
        (if subCmd = JStr (str ''bg'') then Inr (cmd @ [JStr (str ''bg'')])
         else if subCmd = JStr (str ''top'') then Inr (cmd @ [JStr (str ''top'')])
         else if subCmd = JStr (str ''parent'') then Inr (cmd @ [JStr (str ''parent'')])
         else if subCmd = JStr (str ''kill'') then Inr (cmd @ [JStr (str ''kill'')])
         else Inl (str ''exit() requires subCmd argument''))
      of Inl msg \<Rightarrow> fail msg b
       | Inr cmd \<Rightarrow>
           (let cmd = cmd @ push_if (hasOwnProperty opts (str ''code'')) (getprop opts (str ''code''))
            in case raw (JStr (array_join (str '' '') cmd)) b of
                 Return r b' \<Rightarrow> Return Undefined b'
               | other \<Rightarrow> other))"

definition find_cmd :: "props \<Rightarrow> builder \<Rightarrow> outcome" where
  "find_cmd opts b =
     (let cmd = [JStr (str ''find'')]
                @ push_if (hasOwnProperty opts (str ''maxScanDepth''))
                    (JStr (str ''-d '' @ toStr (getprop opts (str ''maxScanDepth''))))
                @ push_if (truthy (getprop opts (str ''longListing''))) (JStr (str ''-l''))
                @ push_if (hasOwnProperty opts (str ''directory''))
                    (priv_escapeShell b (getprop opts (str ''directory'')))
      in raw (JStr (array_join (str '' '') cmd)) b)"

definition get :: "jsval \<Rightarrow> props \<Rightarrow> builder \<Rightarrow> outcome" where
  "get remotePath opts b =
     (if \<not> truthy remotePath then fail (str ''get() require remotePath argument'') b
      else
        let cmd = [JStr (str ''get'')]
                  @ push_if (truthy (getprop opts (str ''continue''))) (JStr (str ''-c''))
                  @ push_if (truthy (getprop opts (str ''deleteSrcOnSuccess''))) (JStr (str ''-E''))
                  @ push_if (truthy (getprop opts (str ''deleteTargetBefore''))) (JStr (str ''-e''))
                  @ push_if (truthy (getprop opts (str ''asciiMode''))) (JStr (str ''-a''))
                  @ push_if (hasOwnProperty opts (str ''base''))
                      (JStr (str ''-O '' @ toStr (priv_escapeShell b (getprop opts (str ''base'')))))
                  @ [priv_escapeShell b remotePath]
                  @ push_if (hasOwnProperty opts (str ''localPath''))
                      (JStr (str ''-o '' @ toStr (priv_escapeShell b (getprop opts (str ''localPath'')))))
        in raw (JStr (array_join (str '' '') cmd)) b)"

definition get1 :: "jsval \<Rightarrow> props \<Rightarrow> builder \<Rightarrow> outcome" where
  "get1 remoteFile opts b =
     (if \<not> truthy remoteFile then fail (str ''get1() requires remoteFile argument'') b
      else
        let cmd = [JStr (str ''get1'')]
                  @ push_if (hasOwnProperty opts (str ''destFileName''))
                      (JStr (str ''-o ''
                             @ toStr (priv_escapeShell b (getprop opts (str ''destFileName'')))))
                  @ push_if (truthy (getprop opts (str ''continue''))) (JStr (str ''-c''))
                  @ push_if (truthy (getprop opts (str ''deleteSrcOnSuccess''))) (JStr (str ''-E''))
                  @ push_if (truthy (getprop opts (str ''asciiMode''))) (JStr (str ''-a''))
                  @ push_if (hasOwnProperty opts (str ''srcRegion''))
                      (JStr (str ''--source-region='' @ toStr (getprop opts (str ''srcRegion''))))
                  @ push_if (hasOwnProperty opts (str ''targetPos''))
                      (JStr (str ''--target-position='' @ toStr (getprop opts (str ''targetPos''))))
                  @ [priv_escapeShell b remoteFile]
        in raw (JStr (array_join (str '' '') cmd)) b)"

definition glob :: "jsval \<Rightarrow> props \<Rightarrow> builder \<Rightarrow> outcome" where
  "glob patterns opts b =
     (if \<not> truthy patterns then fail (str ''glob() requires patterns argument'') b
      else
        let cmd = [JStr (str ''glob'')]
                  @ push_if (truthy (getprop opts (str ''plainFiles''))) (JStr (str ''-f''))
                  @ push_if (truthy (getprop opts (str ''directories''))) (JStr (str ''-d''))
                  @ push_if (truthy (getprop opts (str ''allTypes''))) (JStr (str ''-a''))
                  @ push_if (truthy (getprop opts (str ''exist'')))
                      (JStr (str ''--exist '' @ toStr (priv_escapeShell b patterns)))
                  @ push_if (truthy (getprop opts (str ''notExist'')))
                      (JStr (str ''--not-exist '' @ toStr (priv_escapeShell b patterns)));
            existanceSpecified =
              (truthy (getprop opts (str ''exist'')) \<or> truthy (getprop opts (str ''notExist'')));
            commandSpecified = hasOwnProperty opts (str ''command'')
        in if existanceSpecified \<and> commandSpecified
             then raw (JStr (array_join (str '' '')
                    (cmd @ [JStr (str ''&& '' @ toStr (getprop opts (str ''command'')))]))) b
           else if \<not> existanceSpecified \<and> commandSpecified
             then raw (JStr (array_join (str '' '')
                    (cmd @ [getprop opts (str ''command''), priv_escapeShell b patterns]))) b
           else if \<not> existanceSpecified \<and> \<not> commandSpecified
             then fail
               (str ''glob() opts argument requires exist, notExist, and/or command properties'') b
           else raw (JStr (array_join (str '' '') cmd)) b)"

definition help_cmd :: "props \<Rightarrow> builder \<Rightarrow> outcome" where
  "help_cmd opts b =
     (let cmd = [JStr (str ''help'')]
                @ push_if (hasOwnProperty opts (str ''command'')) (getprop opts (str ''command''))
      in raw (JStr (array_join (str '' '') cmd)) b)"

text \<open>
  The verbosity flag of \<^verbatim>\<open>jobs\<close>: \<^verbatim>\<open>_inRange(v, 1, 4)\<close> and \<^verbatim>\<open>_times(v, ...)\<close>
  of lodash first convert \<^verbatim>\<open>v\<close> to a number. A number is itself, \<^verbatim>\<open>true\<close> is 1,
  \<^verbatim>\<open>false\<close> and \<^verbatim>\<open>null\<close> are 0, \<^verbatim>\<open>undefined\<close> and a plain object are
  \<^verbatim>\<open>NaN\<close>, which is in no range. The conversion of a string or an array parses a
  numeral; it is outside the model, and the result is \<^const>\<open>None\<close>.
\<close>

definition verbosity_flag :: "jsval \<Rightarrow> jsval list option" where
  "verbosity_flag v =
     (case v of
        JNum n \<Rightarrow> Some (push_if (1 \<le> n \<and> n < 4) (JStr (str (''-'' @ replicate (nat n) CHR ''v''))))
      | JBool t \<Rightarrow> Some (push_if t (JStr (str ''-v'')))
      | JNull \<Rightarrow> Some []
      | JUndefined \<Rightarrow> Some []
      | JObj ps \<Rightarrow> Some []
      | JStr s \<Rightarrow> None
      | JArr xs \<Rightarrow> None)"

definition jobs :: "props \<Rightarrow> builder \<Rightarrow> outcome" where
  "jobs opts b =
     (case (if hasOwnProperty opts (str ''verbosity'')
            then verbosity_flag (getprop opts (str ''verbosity'')) else Some []) of
        None \<Rightarrow> Unmodelled
      | Some flag \<Rightarrow>
          let cmd = [JStr (str ''jobs'')] @ flag
                    @ push_if (truthy (getprop opts (str ''notRecursive''))) (JStr (str ''-r''))
                    @ push_if (hasOwnProperty opts (str ''jobNumber'')) (getprop opts (str ''jobNumber''))
          in raw (JStr (array_join (str '' '') cmd)) b)"

definition kill :: "props \<Rightarrow> builder \<Rightarrow> outcome" where
  "kill opts b =
     (let cmd = [JStr (str ''kill'')]
                @ push_if (hasOwnProperty opts (str ''jobNumber'')) (getprop opts (str ''jobNumber''))
      in raw (JStr (array_join (str '' '') cmd)) b)"

definition lcd :: "jsval \<Rightarrow> builder \<Rightarrow> outcome" where
  "lcd dir b = raw (JStr (str ''lcd '' @ toStr (priv_escapeShell b dir))) b"

definition ln :: "jsval \<Rightarrow> jsval \<Rightarrow> props \<Rightarrow> builder \<Rightarrow> outcome" where
  "ln existingFile newLink opts b =
     (if \<not> truthy existingFile then fail (str ''ln() requires existingFile argument'') b
      else if \<not> truthy newLink then fail (str ''ln() requires newLink argument'') b
      else
        let cmd = [JStr (str ''ln'')]
                  @ push_if (truthy (getprop opts (str ''symbolic''))) (JStr (str ''-s''))
                  @ [priv_escapeShell b existingFile]
                  @ [priv_escapeShell b newLink]
        in raw (JStr (array_join (str '' '') cmd)) b)"

definition local :: "jsval \<Rightarrow> builder \<Rightarrow> outcome" where
  "local command b =
     (if \<not> truthy command then fail (str ''local() requires command argument'') b
      else raw (JStr (str ''local '' @ toStr command)) b)"

definition lpwd :: "builder \<Rightarrow> outcome" where
  "lpwd b = raw (JStr (str ''lpwd'')) b"

definition ls :: "builder \<Rightarrow> outcome" where
  "ls b = raw (JStr (str ''ls'')) b"

definition pwd :: "builder \<Rightarrow> outcome" where
  "pwd b = raw (JStr (str ''pwd'')) b"

definition put :: "jsval \<Rightarrow> props \<Rightarrow> builder \<Rightarrow> outcome" where
  "put localPath opts b =
     (if \<not> truthy localPath then fail (str ''put() requires localPath argument'') b
      else
        let remotePath = getprop opts (str ''remotePath'')
        in if \<not> truthy remotePath
             then raw (JStr (str ''put '' @ toStr (priv_escapeShell b localPath))) b
           else raw (JStr (str ''put '' @ toStr (priv_escapeShell b localPath) @ str '' -o ''
                           @ toStr (priv_escapeShell b remotePath))) b)"

definition mv :: "jsval \<Rightarrow> jsval \<Rightarrow> builder \<Rightarrow> outcome" where
  "mv src dest b =
     (if \<not> truthy src then fail (str ''mv() requires src argument'') b
      else if \<not> truthy dest then fail (str ''mv() requires dest argument'') b
      else raw (JStr (str ''mv '' @ toStr (priv_escapeShell b src) @ str '' ''
                      @ toStr (priv_escapeShell b dest))) b)"

definition rm :: "jsval list \<Rightarrow> builder \<Rightarrow> outcome" where
  "rm files b =
     (if length files = 0 then fail (str ''rm() requires files argument(s)'') b
      else
        let filesStr = array_join (str '' '') (map (priv_escapeShell b) files)
        in raw (JStr (str ''rm '' @ filesStr)) b)"

definition rmdir :: "jsval list \<Rightarrow> builder \<Rightarrow> outcome" where
  "rmdir directories b =
     (if length directories = 0 then fail (str ''rmdir() requires directories argument(s)'') b
      else
        let directoriesStr = array_join (str '' '') (map (priv_escapeShell b) directories)
        in raw (JStr (str ''rmdir '' @ directoriesStr)) b)"

definition mirror :: "jsval \<Rightarrow> props \<Rightarrow> builder \<Rightarrow> outcome" where
  "mirror remoteDir opts b =
     (let upload = getprop opts (str ''upload'');
          localDir = getprop opts (str ''localDir'')
      in if \<not> truthy remoteDir then fail (str ''mirror() requires remoteDir argument'') b
         else if truthy upload \<and> \<not> truthy localDir
           then fail
             (str ''mirror(opts = {upload: true}) opts argument requires localDir property'') b
         else
           let cmd = (if truthy (getprop opts (str ''queue''))
                      then [JStr (str ''queue mirror'')] else [JStr (str ''mirror'')])
                     @ push_if (truthy upload) (JStr (str ''--reverse''))
                     @ push_if (hasOwnProperty opts (str ''parallel''))
                         (JStr (str ''--parallel='' @ toStr (getprop opts (str ''parallel''))))
                     @ push_if (hasOwnProperty opts (str ''filter''))
                         (JStr (str (''--include='' @ [CHR 0x27])
                                @ toStr (getprop opts (str ''filter'')) @ str [CHR 0x27]))
                     @ push_if (hasOwnProperty opts (str ''pget''))
                         (JStr (str ''--use-pget-n='' @ toStr (getprop opts (str ''pget''))))
                     @ push_if (hasOwnProperty opts (str ''options'')) (getprop opts (str ''options''))
                     @ (if truthy upload
                        then [JStr (toStr (priv_escapeShell b localDir) @ str '' ''
                                    @ toStr (priv_escapeShell b remoteDir))]
                        else if \<not> truthy localDir
                        then [JStr (toStr (priv_escapeShell b remoteDir))]
                        else [JStr (toStr (priv_escapeShell b remoteDir) @ str '' ''
                                    @ toStr (priv_escapeShell b localDir))])
           in raw (JStr (array_join (str '' '') cmd)) b)"

definition pget :: "jsval \<Rightarrow> props \<Rightarrow> builder \<Rightarrow> outcome" where
  "pget remotePath opts b =
     (if \<not> truthy remotePath then fail (str ''pget() requires remotePath argument'') b
      else
        let cmd = (if truthy (getprop opts (str ''queue''))
                   then [JStr (str ''queue pget'')] else [JStr (str ''pget'')]);
            n = js_or (getprop opts (str ''n'')) (JNum 4);
            cmd = cmd @ [JStr (str ''-n '' @ toStr n)]
                      @ [JStr (toStr (priv_escapeShell b remotePath))];
            localPath = getprop opts (str ''localPath'');
            cmd = cmd @ push_if (truthy localPath)
                          (JStr (str ''-o '' @ toStr (priv_escapeShell b localPath)))
        in raw (JStr (array_join (str '' '') cmd)) b)"

subsection \<open>The builder \<^verbatim>\<open>command\<close>\<close>

text \<open>
  \<^verbatim>\<open>command(cmd, args)\<close> evaluates \<^verbatim>\<open>this[cmd](args)\<close>: the member named by
  \<^verbatim>\<open>cmd\<close> is called with the one argument \<^verbatim>\<open>args\<close>, which is truthy there.
  \<^verbatim>\<open>invoke\<close> is that call for every member but \<^verbatim>\<open>command\<close> itself. The other
  parameters of the member are omitted. Where the first parameter is the options
  object, \<^verbatim>\<open>args\<close> takes its place: an object gives its own properties, and any
  other truthy value has none of the properties the builders ask for.

  A name that is no function member of the instance is a \<^verbatim>\<open>TypeError\<close>. The function
  members that are no subcommand builders, apart from \<^verbatim>\<open>fail\<close>, are outside the
  model: they return values other than the builder, or start a process.
\<close>

definition as_props :: "jsval \<Rightarrow> props" where
  "as_props v = (case v of JObj ps \<Rightarrow> ps | _ \<Rightarrow> [])"

definition helper_members :: "ustring list" where
  "helper_members =
     [str ''validateOptions'', str ''escapeShell'', str ''_escapeShell'', str ''baseCmd'',
      str ''exec'', str ''spawn'',
      str ''hasOwnProperty'', str ''isPrototypeOf'', str ''propertyIsEnumerable'', str ''toString'',
      str ''toLocaleString'', str ''valueOf'', str ''__defineGetter__'', str ''__defineSetter__'',
      str ''__lookupGetter__'', str ''__lookupSetter__'']"

definition invoke :: "ustring \<Rightarrow> jsval \<Rightarrow> builder \<Rightarrow> outcome" where
  "invoke name args b =
     (if name = str ''fail'' then fail (toStr args) b
      else if name = str ''raw'' then raw args b
      else if name = str ''alias'' then alias_cmd args JUndefined b
      else if name = str ''at'' then at args b
      else if name = str ''attach'' then attach args b
      else if name = str ''bookmark'' then bookmark args [] b
      else if name = str ''cache'' then cache args [] b
      else if name = str ''cat'' then cat args b
      else if name = str ''cd'' then cd args b
      else if name = str ''chmod'' then chmod args [] b
      else if name = str ''close'' then close args b
      else if name = str ''cls'' then cls (as_props args) b
      else if name = str ''debug'' then debug args [] b
      else if name = str ''echo'' then echo args b
      else if name = str ''edit'' then edit args [] b
      else if name = str ''eval'' then eval_cmd args [] b
      else if name = str ''exit'' then exit args [] b
      else if name = str ''find'' then find_cmd (as_props args) b
      else if name = str ''get'' then get args [] b
      else if name = str ''get1'' then get1 args [] b
      else if name = str ''glob'' then glob args [] b
      else if name = str ''help'' then help_cmd (as_props args) b
      else if name = str ''jobs'' then jobs (as_props args) b
      else if name = str ''kill'' then kill (as_props args) b
      else if name = str ''lcd'' then lcd args b
      else if name = str ''ln'' then ln args JUndefined [] b
      else if name = str ''local'' then local args b
      else if name = str ''lpwd'' then lpwd b
      else if name = str ''ls'' then ls b
      else if name = str ''pwd'' then pwd b
      else if name = str ''put'' then put args [] b
      else if name = str ''mv'' then mv args JUndefined b
      else if name = str ''rm'' then rm [args] b
      else if name = str ''rmdir'' then rmdir [args] b
      else if name = str ''mirror'' then mirror args [] b
      else if name = str ''pget'' then pget args [] b
      else if name \<in> set helper_members then Unmodelled
      else Throw (TypeError ''this[cmd] is not a function'') b)"

text \<open>\<^verbatim>\<open>_last(xs)\<close> of lodash on the queue: \<^verbatim>\<open>undefined\<close> when it is empty.\<close>

definition lodash_last :: "ustring list \<Rightarrow> jsval" where
  "lodash_last xs = (if xs = [] then JUndefined else JStr (last xs))"

text \<open>
  The member \<^verbatim>\<open>command\<close> can name itself: the inner call is then
  \<^verbatim>\<open>command(args)\<close>, with its second argument omitted. The property access
  \<^verbatim>\<open>.cmds\<close> on the result of the member is a \<^verbatim>\<open>TypeError\<close> when the member returned
  \<^verbatim>\<open>undefined\<close>.
\<close>

function command :: "jsval \<Rightarrow> jsval \<Rightarrow> builder \<Rightarrow> outcome" where
  "command cmd args b =
     (if \<not> truthy cmd then fail (str ''command() requires cmd argument'') b
      else if \<not> truthy args then fail (str ''command() requires args argument'') b
      else
        case (if toStr cmd = str ''command'' then command args JUndefined b
              else invoke (toStr cmd) args b) of
          Return This b' \<Rightarrow>
            (let cmdString = lodash_last (cmds b')
             in raw (JStr (str ''command '' @ toStr cmdString)) b')
        | Return Undefined b' \<Rightarrow>
            Throw (TypeError ''Cannot read property cmds of undefined'') b'
        | Throw e b' \<Rightarrow> Throw e b'
        | Unmodelled \<Rightarrow> Unmodelled)"
  by pat_completeness auto
termination
  by (relation "measure (\<lambda>(cmd, args, b). if truthy args then 1 else 0)") auto

declare command.simps [simp del]

subsection \<open>Calls\<close>

text \<open>One constructor for each builder method of the class, with its arguments.\<close>

datatype call =
    Raw jsval
  | Alias jsval jsval
  | At jsval
  | Attach jsval
  | Bookmark jsval props
  | Cache jsval props
  | Cat jsval
  | Cd jsval
  | Chmod jsval "jsval list"
  | Close jsval
  | Cls props
  | Command jsval jsval
  | Debug jsval props
  | Echo jsval
  | Edit jsval props
  | Eval jsval props
  | Exit jsval props
  | Find props
  | Get jsval props
  | Get1 jsval props
  | Glob jsval props
  | Help props
  | Jobs props
  | Kill props
  | Lcd jsval
  | Ln jsval jsval props
  | Local jsval
  | Lpwd
  | Ls
  | Pwd
  | Put jsval props
  | Mv jsval jsval
  | Rm "jsval list"
  | Rmdir "jsval list"
  | Mirror jsval props
  | Pget jsval props

fun run :: "call \<Rightarrow> builder \<Rightarrow> outcome" where
  "run (Raw cmd) b = raw cmd b"
| "run (Alias name val) b = alias_cmd name val b"
| "run (At time) b = at time b"
| "run (Attach pid) b = attach pid b"
| "run (Bookmark subCmd opts) b = bookmark subCmd opts b"
| "run (Cache subCmd opts) b = cache subCmd opts b"
| "run (Cat path) b = cat path b"
| "run (Cd dir) b = cd dir b"
| "run (Chmod mode files) b = chmod mode files b"
| "run (Close all) b = close all b"
| "run (Cls opts) b = cls opts b"
| "run (Command cmd args) b = command cmd args b"
| "run (Debug level opts) b = debug level opts b"
| "run (Echo text) b = echo text b"
| "run (Edit file opts) b = edit file opts b"
| "run (Eval args opts) b = eval_cmd args opts b"
| "run (Exit subCmd opts) b = exit subCmd opts b"
| "run (Find opts) b = find_cmd opts b"
| "run (Get remotePath opts) b = get remotePath opts b"
| "run (Get1 remoteFile opts) b = get1 remoteFile opts b"
| "run (Glob patterns opts) b = glob patterns opts b"
| "run (Help opts) b = help_cmd opts b"
| "run (Jobs opts) b = jobs opts b"
| "run (Kill opts) b = kill opts b"
| "run (Lcd dir) b = lcd dir b"
| "run (Ln existingFile newLink opts) b = ln existingFile newLink opts b"
| "run (Local c) b = local c b"
| "run Lpwd b = lpwd b"
| "run Ls b = ls b"
| "run Pwd b = pwd b"
| "run (Put localPath opts) b = put localPath opts b"
| "run (Mv src dest) b = mv src dest b"
| "run (Rm files) b = rm files b"
| "run (Rmdir directories) b = rmdir directories b"
| "run (Mirror remoteDir opts) b = mirror remoteDir opts b"
| "run (Pget remotePath opts) b = pget remotePath opts b"

section \<open>Inputs and conditions of the properties\<close>

text \<open>
  The builder of the test suite, \<^verbatim>\<open>lftpInit()\<close>: the instance constructed from a host,
  a user name and a password, before any call.
\<close>

definition lftpInit :: builder where
  "lftpInit =
     \<lparr>options = \<lparr>host = str ''sftp://host:22'', username = JStr (str ''username''),
                  password = JStr (str ''password''), protocol = str ''sftp'', escape = JBool True,
                  retries = JNum 1, timeout = JNum 10, retryInterval = JNum 5,
                  retryIntervalMultiplier = JNum 1, autoConfirm = JBool False\<rparr>,
      spawnOptions = [], cmds = []\<rparr>"

text \<open>
  A call leaves out a required argument: a required positional argument is
  \<^verbatim>\<open>undefined\<close>, a required rest parameter is empty, or the options object lacks the
  property that the chosen subcommand requires (for \<^verbatim>\<open>glob\<close>: all of \<^verbatim>\<open>exist\<close>,
  \<^verbatim>\<open>notExist\<close> and \<^verbatim>\<open>command\<close>; for \<^verbatim>\<open>mirror\<close> with \<^verbatim>\<open>upload\<close>:
  \<^verbatim>\<open>localDir\<close>). The builders without required arguments never do.
\<close>

fun required_omitted :: "call \<Rightarrow> bool" where
  "required_omitted (Raw cmd) = False"
| "required_omitted (Alias name val) = False"
| "required_omitted (At time) = (time = JUndefined)"
| "required_omitted (Attach pid) = (pid = JUndefined)"
| "required_omitted (Bookmark subCmd opts) =
     (subCmd = JUndefined
      \<or> (subCmd = JStr (str ''add'') \<and> \<not> hasOwnProperty opts (str ''name''))
      \<or> (subCmd = JStr (str ''del'') \<and> \<not> hasOwnProperty opts (str ''name''))
      \<or> (subCmd = JStr (str ''import'') \<and> \<not> hasOwnProperty opts (str ''type'')))"
| "required_omitted (Cache subCmd opts) =
     (subCmd = JUndefined
      \<or> (subCmd = JStr (str ''size'') \<and> \<not> hasOwnProperty opts (str ''lim''))
      \<or> (subCmd = JStr (str ''expire'')
          \<and> (\<not> hasOwnProperty opts (str ''n'') \<or> \<not> hasOwnProperty opts (str ''unit''))))"
| "required_omitted (Cat path) = (path = JUndefined)"
| "required_omitted (Cd dir) = (dir = JUndefined)"
| "required_omitted (Chmod mode files) = (mode = JUndefined \<or> files = [])"
| "required_omitted (Close all) = False"
| "required_omitted (Cls opts) = False"
| "required_omitted (Command cmd args) = (cmd = JUndefined \<or> args = JUndefined)"
| "required_omitted (Debug level opts) = (level = JUndefined)"
| "required_omitted (Echo text) = False"
| "required_omitted (Edit file opts) = (file = JUndefined)"
| "required_omitted (Eval args opts) = (args = JUndefined)"
| "required_omitted (Exit subCmd opts) = (subCmd = JUndefined)"
| "required_omitted (Find opts) = False"
| "required_omitted (Get remotePath opts) = (remotePath = JUndefined)"
| "required_omitted (Get1 remoteFile opts) = (remoteFile = JUndefined)"
| "required_omitted (Glob patterns opts) =
     (patterns = JUndefined
      \<or> (\<not> hasOwnProperty opts (str ''exist'') \<and> \<not> hasOwnProperty opts (str ''notExist'')
          \<and> \<not> hasOwnProperty opts (str ''command'')))"
| "required_omitted (Help opts) = False"
| "required_omitted (Jobs opts) = False"
| "required_omitted (Kill opts) = False"
| "required_omitted (Lcd dir) = False"
| "required_omitted (Ln existingFile newLink opts) =
     (existingFile = JUndefined \<or> newLink = JUndefined)"
| "required_omitted (Local c) = (c = JUndefined)"
| "required_omitted Lpwd = False"
| "required_omitted Ls = False"
| "required_omitted Pwd = False"
| "required_omitted (Put localPath opts) = (localPath = JUndefined)"
| "required_omitted (Mv src dest) = (src = JUndefined \<or> dest = JUndefined)"
| "required_omitted (Rm files) = (files = [])"
| "required_omitted (Rmdir directories) = (directories = [])"
| "required_omitted (Mirror remoteDir opts) =
     (remoteDir = JUndefined
      \<or> (truthy (getprop opts (str ''upload'')) \<and> \<not> hasOwnProperty opts (str ''localDir'')))"
| "required_omitted (Pget remotePath opts) = (remotePath = JUndefined)"

text \<open>
  The escaper as the specification words it. \<^verbatim>\<open>escape(value)\<close>: the empty string for
  a value that is no string; otherwise the value with every occurrence of the double
  quote, whitespace, the single quote, the dollar sign, the backtick, the two brackets
  and the backslash prefixed with a backslash. \<^verbatim>\<open>escapeIfEnabled(value)\<close>:
  \<^verbatim>\<open>escape(value)\<close> when the escape mode holds, and the value unchanged otherwise.
\<close>

definition spec_escape :: "jsval \<Rightarrow> jsval" where
  "spec_escape val =
     (case val of
        JStr s \<Rightarrow>
          JStr (concat (map (\<lambda>c.
            if c \<in> set (str [CHR 0x22, CHR 0x27, CHR ''$'', CHR 0x60, CHR ''['', CHR '']'',
                             CHR 0x5C])
               \<or> js_whitespace c
            then [0x5C, c] else [c]) s))
      | _ \<Rightarrow> JStr [])"

definition spec_escapeIfEnabled :: "jsval \<Rightarrow> jsval \<Rightarrow> jsval" where
  "spec_escapeIfEnabled mode val = (if truthy mode then spec_escape val else val)"

text \<open>
  The host string as the specification words it: the protocol supplied, in lower case,
  or \<^verbatim>\<open>sftp\<close> when absent; the host; the port supplied, or 22 when absent.
\<close>

definition spec_host :: "props \<Rightarrow> ustring" where
  "spec_host opts =
     (if hasOwnProperty opts (str ''protocol'')
      then toLowerCase (toStr (getprop opts (str ''protocol''))) else (str ''sftp''))
     @ str ''://'' @ toStr (getprop opts (str ''host'')) @ str '':''
     @ toStr (if hasOwnProperty opts (str ''port'') then getprop opts (str ''port'') else JNum 22)"

section \<open>Properties\<close>

subsection \<open>Auxiliary facts\<close>

text \<open>The literals: distinct texts are distinct strings.\<close>

lemma of_char_nat_bound: "(of_char c :: nat) < 256"
  using of_char_mod_256 [of c, where ?'a = nat]
  by (metis mod_less_divisor zero_less_numeral)

lemma unat_of_char: "unat (of_char c :: 16 word) = of_char c"
proof -
  have "(of_char c :: 16 word) = of_nat (of_char c)"
    by (simp add: of_nat_of_char)
  moreover have "(of_char c :: nat) < 2 ^ 16"
    using of_char_nat_bound [of c] by (simp add: less_trans [where y = 256])
  ultimately show ?thesis
    by (simp add: unat_of_nat)
qed

lemma of_char_word_eq_iff: "(of_char c :: 16 word) = of_char d \<longleftrightarrow> c = d"
proof
  assume "(of_char c :: 16 word) = of_char d"
  then have "unat (of_char c :: 16 word) = unat (of_char d :: 16 word)"
    by simp
  then have "(of_char c :: nat) = of_char d"
    by (simp only: unat_of_char)
  then show "c = d"
    by simp
qed simp

lemma str_eq_iff: "str s = str t \<longleftrightarrow> s = t"
  by (simp add: str_def inj_map_eq_map inj_on_def of_char_word_eq_iff)

lemma lower_protocols:
  "toLowerCase (str ''sftp'') = str ''sftp''" "toLowerCase (str ''ftp'') = str ''ftp''"
  "toLowerCase (str ''ftps'') = str ''ftps''"
  by (simp_all add: toLowerCase_def lower_unit_def str_def)

lemma string_of_nat_numerals:
  "string_of_nat 0 = ''0''" "string_of_nat 1 = ''1''" "string_of_nat 5 = ''5''"
  "string_of_nat 10 = ''10''" "string_of_nat 21 = ''21''" "string_of_nat 22 = ''22''"
  by code_simp+

lemma string_of_nat_Suc_0: "string_of_nat (Suc 0) = ''1''"
  using string_of_nat_numerals(2) by simp

lemma getprop_absent: "\<not> hasOwnProperty opts k \<Longrightarrow> getprop opts k = JUndefined"
  by (simp add: hasOwnProperty_def getprop_def)

lemma join_map_JStr: "array_join sep (map JStr xs) = join sep xs"
  by (simp add: array_join_def join_elem_def comp_def)

lemma join_append:
  "xs \<noteq> [] \<Longrightarrow> ys \<noteq> [] \<Longrightarrow> join sep (xs @ ys) = join sep xs @ sep @ join sep ys"
  by (induction sep xs rule: join.induct) (auto simp: neq_Nil_conv)

lemma baseCmd_nonempty: "baseCmd b \<noteq> []"
  by (simp add: baseCmd_def)

lemma baseCmd_cmds_update: "baseCmd (b\<lparr>cmds := q\<rparr>) = baseCmd b"
  by (simp add: baseCmd_def priv_escapeShell_def)

lemma lftpInit_constructed:
  "LFTP [(str ''host'', JStr (str ''host'')), (str ''username'', JStr (str ''username'')),
         (str ''password'', JStr (str ''password''))] = Inr lftpInit"
  by (simp add: LFTP_def validateOptions_def hasOwnProperty_def getprop_def js_or_def
      lftpInit_def lower_protocols string_of_nat_numerals lodash_includes_def str_eq_iff)
    (simp add: str_def)

text \<open>An accepted options object has no protocol, or one of the three lower-case names.\<close>

lemma validated_protocol:
  assumes "validateOptions opts = Inr u"
  shows "if hasOwnProperty opts (str ''protocol'')
         then getprop opts (str ''protocol'')
                \<in> {JStr (str ''ftp''), JStr (str ''sftp''), JStr (str ''ftps'')}
         else getprop opts (str ''protocol'') = JUndefined"
  using assms
  by (auto simp: validateOptions_def Let_def lodash_includes_def getprop_absent
      split: if_splits jsval.splits)

lemma LFTP_built:
  assumes "validateOptions opts = Inr u"
    and "js_or (getprop opts (str ''protocol'')) (JStr (str ''sftp'')) = JStr p"
    and "LFTP opts = Inr b"
  shows "b = \<lparr>options = \<lparr>
                 host = toLowerCase p @ str ''://'' @ toStr (getprop opts (str ''host''))
                        @ str '':'' @ toStr (js_or (getprop opts (str ''port'')) (JNum 22)),
                 username = getprop opts (str ''username''),
                 password = js_or (getprop opts (str ''password'')) (JStr []),
                 protocol = toLowerCase p,
                 escape = (if hasOwnProperty opts (str ''escape'')
                           then getprop opts (str ''escape'') else JBool True),
                 retries = js_or (getprop opts (str ''retries'')) (JNum 1),
                 timeout = js_or (getprop opts (str ''timeout'')) (JNum 10),
                 retryInterval = js_or (getprop opts (str ''retryInterval'')) (JNum 5),
                 retryIntervalMultiplier =
                   js_or (getprop opts (str ''retryIntervalMultiplier'')) (JNum 1),
                 autoConfirm = (if hasOwnProperty opts (str ''autoConfirm'')
                                then getprop opts (str ''autoConfirm'') else JBool False)\<rparr>,
               spawnOptions = (if hasOwnProperty opts (str ''cwd'')
                               then [(str ''cwd'', getprop opts (str ''cwd''))] else []),
               cmds = []\<rparr>"
  using assms unfolding LFTP_def Let_def by simp

lemma LFTP_protocol_string:
  assumes "LFTP opts = Inr b"
  obtains u p where "validateOptions opts = Inr u"
    and "js_or (getprop opts (str ''protocol'')) (JStr (str ''sftp'')) = JStr p"
  using assms by (auto simp: LFTP_def split: sum.splits jsval.splits)

lemma LFTP_host_of:
  assumes "validateOptions opts = Inr u"
    and "js_or (getprop opts (str ''protocol'')) (JStr (str ''sftp'')) = JStr p"
    and "LFTP opts = Inr b"
  shows "host (options b) =
      toLowerCase p @ str ''://'' @ toStr (getprop opts (str ''host'')) @ str '':''
      @ toStr (js_or (getprop opts (str ''port'')) (JNum 22))"
  using LFTP_built [OF assms] by simp

text \<open>The escaper of the code is the escaper of the specification.\<close>

lemma replace_special_concat:
  "replace_special s = concat (map (\<lambda>c. if special c then [0x5C, c] else [c]) s)"
  by (induction s) simp_all

lemma special_spec:
  "special c \<longleftrightarrow>
     c \<in> set (str [CHR 0x22, CHR 0x27, CHR ''$'', CHR 0x60, CHR ''['', CHR '']'', CHR 0x5C])
     \<or> js_whitespace c"
  by (auto simp: special_def str_def)

lemma escapeShell_spec_escape: "escapeShell v = spec_escape v"
  by (cases v) (simp_all add: escapeShell_def spec_escape_def replace_special_concat special_spec)

lemma priv_escapeShell_spec:
  "priv_escapeShell b v = spec_escapeIfEnabled (escape (options b)) v"
  by (simp add: priv_escapeShell_def spec_escapeIfEnabled_def escapeShell_spec_escape)

subsection \<open>Construction\<close>

text \<open>
  The password is required whatever \<^verbatim>\<open>requiresPassword\<close> is: the default
  \<^verbatim>\<open>|| true\<close> makes the flag truthy for every value of the option.
\<close>

lemma truthy_or_True: "truthy (js_or v (JBool True))"
  by (simp add: js_or_def)

lemma password_always_required:
  "\<not> hasOwnProperty opts (str ''password'') \<Longrightarrow> \<exists>e. LFTP opts = Inl e"
  by (simp add: LFTP_def validateOptions_def truthy_or_True Let_def)

text \<open>
  C1. The claim: options with a host and a user name, \<^verbatim>\<open>requiresPassword: false\<close> and
  no password are accepted. The code computes \<^verbatim>\<open>opts.requiresPassword || true\<close>, which
  is \<^verbatim>\<open>true\<close> for every value of the option, so the password stays required: on
  \<^verbatim>\<open>{host: 'host', username: 'username', requiresPassword: false}\<close> the constructor
  throws the error of the missing password.
\<close>

theorem LFTP_requiresPassword_false:
  "LFTP [(str ''host'', JStr (str ''host'')), (str ''username'', JStr (str ''username'')),
         (str ''requiresPassword'', JBool False)]
   = Inl (Error (str ''LFTP opts must include password''))"
  by (simp add: LFTP_def validateOptions_def hasOwnProperty_def getprop_def js_or_def
      str_eq_iff)

text \<open>
  C8, as amended. For every options object that the constructor accepts, the host string
  is \<^verbatim>\<open><protocol>://<host>:<port>\<close>, where the protocol is the one supplied, in lower
  case, or \<^verbatim>\<open>sftp\<close> when absent, and the port is the one supplied when it is truthy,
  and 22 when it is absent or falsy (0, the empty string, \<^verbatim>\<open>null\<close>, \<^verbatim>\<open>false\<close>).
\<close>

theorem LFTP_host:
  assumes "LFTP opts = Inr b"
  shows "host (options b) =
      (if hasOwnProperty opts (str ''protocol'')
       then toLowerCase (toStr (getprop opts (str ''protocol''))) else str ''sftp'')
      @ str ''://'' @ toStr (getprop opts (str ''host'')) @ str '':''
      @ toStr (if truthy (getprop opts (str ''port''))
               then getprop opts (str ''port'') else JNum 22)"
proof -
  from assms obtain u where v: "validateOptions opts = Inr u"
    by (cases "validateOptions opts") (simp_all add: LFTP_def)
  show ?thesis
  proof (cases "hasOwnProperty opts (str ''protocol'')")
    case True
    with validated_protocol [OF v]
    have "getprop opts (str ''protocol'')
            \<in> {JStr (str ''ftp''), JStr (str ''sftp''), JStr (str ''ftps'')}"
      by simp
    then obtain p where p: "getprop opts (str ''protocol'') = JStr p" "p \<noteq> []"
      by (auto simp: str_def)
    then have "js_or (getprop opts (str ''protocol'')) (JStr (str ''sftp'')) = JStr p"
      by (simp add: js_or_def)
    from LFTP_host_of [OF v this assms] p True show ?thesis
      by (simp add: js_or_def)
  next
    case False
    with validated_protocol [OF v] have "getprop opts (str ''protocol'') = JUndefined"
      by simp
    then have "js_or (getprop opts (str ''protocol'')) (JStr (str ''sftp''))
                 = JStr (str ''sftp'')"
      by (simp add: js_or_def)
    from LFTP_host_of [OF v this assms] False show ?thesis
      by (simp add: js_or_def lower_protocols)
  qed
qed

text \<open>The options of the constructor test: protocol \<^verbatim>\<open>ftp\<close> and port 21.\<close>

theorem LFTP_host_witness:
  "LFTP [(str ''host'', JStr (str ''host'')), (str ''username'', JStr (str ''username'')),
         (str ''password'', JStr (str ''password'')), (str ''protocol'', JStr (str ''ftp'')),
         (str ''port'', JNum 21)]
     = Inr (lftpInit\<lparr>options :=
              (options lftpInit)\<lparr>host := str ''ftp://host:21'', protocol := str ''ftp''\<rparr>\<rparr>)
   \<and> host (options (lftpInit\<lparr>options :=
              (options lftpInit)\<lparr>host := str ''ftp://host:21'', protocol := str ''ftp''\<rparr>\<rparr>))
       = str ''ftp://host:21''"
proof -
  have c: "LFTP [(str ''host'', JStr (str ''host'')),
         (str ''username'', JStr (str ''username'')),
         (str ''password'', JStr (str ''password'')), (str ''protocol'', JStr (str ''ftp'')),
         (str ''port'', JNum 21)]
     = Inr (lftpInit\<lparr>options :=
              (options lftpInit)\<lparr>host := str ''ftp://host:21'', protocol := str ''ftp''\<rparr>\<rparr>)"
    by (simp add: LFTP_def validateOptions_def hasOwnProperty_def getprop_def js_or_def
        lodash_includes_def lftpInit_def lower_protocols string_of_nat_numerals str_eq_iff)
      (simp add: str_def)
  from LFTP_host [OF c] c show ?thesis
    by simp
qed

text \<open>
  C8 as stated fails for a port that is supplied and falsy: with \<^verbatim>\<open>port: 0\<close> the
  constructor builds the host \<^verbatim>\<open>sftp://host:22\<close>, where the supplied port gives
  \<^verbatim>\<open>sftp://host:0\<close>.
\<close>

theorem LFTP_host_counterexample:
  "LFTP [(str ''host'', JStr (str ''host'')), (str ''username'', JStr (str ''username'')),
         (str ''password'', JStr (str ''password'')), (str ''port'', JNum 0)]
     = Inr lftpInit
   \<and> host (options lftpInit) = str ''sftp://host:22''
   \<and> spec_host [(str ''host'', JStr (str ''host'')),
         (str ''username'', JStr (str ''username'')),
         (str ''password'', JStr (str ''password'')), (str ''port'', JNum 0)]
       = str ''sftp://host:0''
   \<and> host (options lftpInit)
       \<noteq> spec_host [(str ''host'', JStr (str ''host'')),
         (str ''username'', JStr (str ''username'')),
         (str ''password'', JStr (str ''password'')), (str ''port'', JNum 0)]"
  by (simp add: LFTP_def validateOptions_def hasOwnProperty_def getprop_def js_or_def
      lftpInit_def lower_protocols string_of_nat_numerals spec_host_def str_eq_iff)
    (simp add: str_def)

subsection \<open>The escaper\<close>

lemma special_iff:
  "special c \<longleftrightarrow>
     c \<in> {0x22, 0x27, 0x24, 0x60, 0x5B, 0x5D, 0x5C}
         \<union> {0x09, 0x0A, 0x0B, 0x0C, 0x0D, 0x20, 0xA0, 0x1680, 0x2028, 0x2029, 0x202F,
             0x205F, 0x3000, 0xFEFF}
         \<union> {0x2000 .. 0x200A}"
  by (auto simp: special_def js_whitespace_def)

text \<open>
  C3. \<^verbatim>\<open>escapeShell\<close> returns the empty string for every value that is not a string.
  For a string, a list of arbitrary 16-bit code units, it returns the string in which
  every double quote (0x22), single quote (0x27), dollar sign (0x24), backtick (0x60),
  bracket (0x5B, 0x5D), backslash (0x5C) and every whitespace code unit of \<^verbatim>\<open>\s\<close> is
  preceded by one backslash, each occurrence on its own, and every other code unit is
  unchanged. The string \<^verbatim>\<open>[test] Test.mkv"'$`\\<close> becomes
  \<^verbatim>\<open>\[test\]\ Test.mkv\"\'\$\`\\\<close>.
\<close>

theorem escapeShell_spec:
  \<open>(\<not> is_string v \<longrightarrow> escapeShell v = JStr [])
   \<and> escapeShell (JStr s) =
       JStr (concat (map (\<lambda>c.
         if c \<in> {0x22, 0x27, 0x24, 0x60, 0x5B, 0x5D, 0x5C}
                 \<union> {0x09, 0x0A, 0x0B, 0x0C, 0x0D, 0x20, 0xA0, 0x1680, 0x2028, 0x2029,
                     0x202F, 0x205F, 0x3000, 0xFEFF}
                 \<union> {0x2000 .. 0x200A}
         then [0x5C, c] else [c]) s))
   \<and> escapeShell
         (JStr (str (''[test] Test.mkv'' @ [CHR 0x22, CHR 0x27, CHR ''$'', CHR 0x60, CHR 0x5C])))
       = JStr (str ([CHR 0x5C] @ ''[test'' @ [CHR 0x5C] @ '']'' @ [CHR 0x5C] @ '' Test.mkv''
                    @ [CHR 0x5C, CHR 0x22, CHR 0x5C, CHR 0x27, CHR 0x5C, CHR ''$'',
                       CHR 0x5C, CHR 0x60, CHR 0x5C, CHR 0x5C]))\<close>
proof (intro conjI impI)
  assume "\<not> is_string v"
  then show "escapeShell v = JStr []"
    by (simp add: escapeShell_def)
next
  show \<open>escapeShell (JStr s) =
       JStr (concat (map (\<lambda>c.
         if c \<in> {0x22, 0x27, 0x24, 0x60, 0x5B, 0x5D, 0x5C}
                 \<union> {0x09, 0x0A, 0x0B, 0x0C, 0x0D, 0x20, 0xA0, 0x1680, 0x2028, 0x2029,
                     0x202F, 0x205F, 0x3000, 0xFEFF}
                 \<union> {0x2000 .. 0x200A}
         then [0x5C, c] else [c]) s))\<close>
    unfolding escapeShell_def replace_special_concat special_iff by simp
next
  show \<open>escapeShell
         (JStr (str (''[test] Test.mkv'' @ [CHR 0x22, CHR 0x27, CHR ''$'', CHR 0x60, CHR 0x5C])))
       = JStr (str ([CHR 0x5C] @ ''[test'' @ [CHR 0x5C] @ '']'' @ [CHR 0x5C] @ '' Test.mkv''
                    @ [CHR 0x5C, CHR 0x22, CHR 0x5C, CHR 0x27, CHR 0x5C, CHR ''$'',
                       CHR 0x5C, CHR 0x60, CHR 0x5C, CHR 0x5C]))\<close>
    by (simp add: escapeShell_def special_def js_whitespace_def str_def)
qed

text \<open>
  A number, an array, an ASCII string, and a string with code units from 256 on: the
  ideographic space U+3000 and the em space U+2003 are escaped, the letter U+4E2D and the
  zero width space U+200B are not.
\<close>

theorem escapeShell_spec_witness:
  \<open>escapeShell (JNum 7) = JStr [] \<and> escapeShell (JArr [JStr (str ''a b'')]) = JStr []
   \<and> escapeShell (JStr (str ''a b$c''))
       = JStr (str (''a'' @ [CHR 0x5C] @ '' b'' @ [CHR 0x5C] @ ''$c''))
   \<and> escapeShell (JStr [0x61, 0x3000, 0x4E2D, 0x2003, 0x200B])
       = JStr [0x61, 0x5C, 0x3000, 0x4E2D, 0x5C, 0x2003, 0x200B]\<close>
  using escapeShell_spec [of "JNum 7" "str ''a b$c''"]
    escapeShell_spec [of "JArr [JStr (str ''a b'')]" "[0x61, 0x3000, 0x4E2D, 0x2003, 0x200B]"]
  by (simp add: str_def)

text \<open>
  C9. When the escape option of the builder is \<^verbatim>\<open>false\<close>, \<^verbatim>\<open>_escapeShell\<close> returns
  its argument unchanged, whatever its type.
\<close>

theorem priv_escapeShell_identity:
  "escape (options b) = JBool False \<Longrightarrow> priv_escapeShell b v = v"
  by (simp add: priv_escapeShell_def)

theorem priv_escapeShell_identity_witness:
  "escape (options (lftpInit\<lparr>options := (options lftpInit)\<lparr>escape := JBool False\<rparr>\<rparr>))
     = JBool False
   \<and> priv_escapeShell (lftpInit\<lparr>options := (options lftpInit)\<lparr>escape := JBool False\<rparr>\<rparr>)
       (JStr (str ''another command'')) = JStr (str ''another command'')
   \<and> priv_escapeShell (lftpInit\<lparr>options := (options lftpInit)\<lparr>escape := JBool False\<rparr>\<rparr>)
       (JArr [JNum 1, JNull]) = JArr [JNum 1, JNull]"
  using
    priv_escapeShell_identity
      [of "lftpInit\<lparr>options := (options lftpInit)\<lparr>escape := JBool False\<rparr>\<rparr>"
          "JStr (str ''another command'')"]
    priv_escapeShell_identity
      [of "lftpInit\<lparr>options := (options lftpInit)\<lparr>escape := JBool False\<rparr>\<rparr>"
          "JArr [JNum 1, JNull]"]
  by simp

subsection \<open>The preamble and the executor\<close>

text \<open>
  C7. For every options object that the constructor accepts, \<^verbatim>\<open>baseCmd\<close> returns, in
  this order: \<^verbatim>\<open>set sftp:auto-confirm yes\<close>, present exactly when the protocol is
  \<^verbatim>\<open>sftp\<close> and \<^verbatim>\<open>autoConfirm\<close> holds; the four \<^verbatim>\<open>set net:\<close> statements with the
  retries, the timeout, the retry interval and its multiplier; and the \<^verbatim>\<open>open\<close>
  statement. In the \<^verbatim>\<open>open\<close> statement the user name and the password of the options
  object (the password being the empty string when none is given) are escaped as the
  specification words it when the escape option holds or is absent, and embedded
  unchanged when the escape option is falsy; the host string is embedded as it is.
\<close>

theorem baseCmd_sequence:
  assumes "LFTP opts = Inr b"
  shows \<open>baseCmd b =
      (if protocol (options b) = str ''sftp'' \<and> truthy (autoConfirm (options b))
       then [str ''set sftp:auto-confirm yes''] else [])
      @ [str ''set net:max-retries '' @ toStr (retries (options b)),
         str ''set net:timeout '' @ toStr (timeout (options b)),
         str ''set net:reconnect-interval-base '' @ toStr (retryInterval (options b)),
         str ''set net:reconnect-interval-multiplier ''
           @ toStr (retryIntervalMultiplier (options b)),
         str (''open -u '' @ [CHR 0x22])
           @ toStr (spec_escapeIfEnabled
                      (if hasOwnProperty opts (str ''escape'')
                       then getprop opts (str ''escape'') else JBool True)
                      (getprop opts (str ''username'')))
           @ str [CHR 0x22, CHR '','', CHR 0x22]
           @ toStr (spec_escapeIfEnabled
                      (if hasOwnProperty opts (str ''escape'')
                       then getprop opts (str ''escape'') else JBool True)
                      (js_or (getprop opts (str ''password'')) (JStr [])))
           @ str [CHR 0x22, CHR '' '', CHR 0x22] @ host (options b) @ str [CHR 0x22]]
    \<and> (str ''set sftp:auto-confirm yes'' \<in> set (baseCmd b)
         \<longleftrightarrow> protocol (options b) = str ''sftp'' \<and> truthy (autoConfirm (options b)))\<close>
proof -
  from assms obtain u p where v: "validateOptions opts = Inr u"
    and p: "js_or (getprop opts (str ''protocol'')) (JStr (str ''sftp'')) = JStr p"
    by (rule LFTP_protocol_string)
  from LFTP_built [OF v p assms]
  have user: "username (options b) = getprop opts (str ''username'')"
    and pass: "password (options b) = js_or (getprop opts (str ''password'')) (JStr [])"
    and mode: "escape (options b) =
                 (if hasOwnProperty opts (str ''escape'')
                  then getprop opts (str ''escape'') else JBool True)"
    by simp_all
  have "baseCmd b =
      (if protocol (options b) = str ''sftp'' \<and> truthy (autoConfirm (options b))
       then [str ''set sftp:auto-confirm yes''] else [])
      @ [str ''set net:max-retries '' @ toStr (retries (options b)),
         str ''set net:timeout '' @ toStr (timeout (options b)),
         str ''set net:reconnect-interval-base '' @ toStr (retryInterval (options b)),
         str ''set net:reconnect-interval-multiplier ''
           @ toStr (retryIntervalMultiplier (options b)),
         str (''open -u '' @ [CHR 0x22])
           @ toStr (spec_escapeIfEnabled (escape (options b)) (username (options b)))
           @ str [CHR 0x22, CHR '','', CHR 0x22]
           @ toStr (spec_escapeIfEnabled (escape (options b)) (password (options b)))
           @ str [CHR 0x22, CHR '' '', CHR 0x22] @ host (options b) @ str [CHR 0x22]]"
    by (simp add: baseCmd_def priv_escapeShell_spec)
  moreover have "str ''set sftp:auto-confirm yes'' \<in> set (baseCmd b)
         \<longleftrightarrow> protocol (options b) = str ''sftp'' \<and> truthy (autoConfirm (options b))"
    by (simp add: baseCmd_def) (simp add: str_def)
  ultimately show ?thesis
    by (simp only: user pass mode) 
qed

text \<open>
  The options of the test of \<^verbatim>\<open>baseCmd\<close>, with a user name and a password that hold
  a space, dollar signs and brackets: with the escape option absent they are escaped, and
  with \<^verbatim>\<open>escape: false\<close> they are not.
\<close>

theorem baseCmd_sequence_witness:
  \<open>LFTP [(str ''host'', JStr (str ''host'')), (str ''username'', JStr (str ''user name'')),
         (str ''password'', JStr (str ''pa$$[w]'')), (str ''protocol'', JStr (str ''sftp'')),
         (str ''autoConfirm'', JBool True)]
     = Inr (lftpInit\<lparr>options := (options lftpInit)
              \<lparr>username := JStr (str ''user name''), password := JStr (str ''pa$$[w]''),
               autoConfirm := JBool True\<rparr>\<rparr>)
   \<and> baseCmd (lftpInit\<lparr>options := (options lftpInit)
              \<lparr>username := JStr (str ''user name''), password := JStr (str ''pa$$[w]''),
               autoConfirm := JBool True\<rparr>\<rparr>)
     = [str ''set sftp:auto-confirm yes'',
        str ''set net:max-retries 1'',
        str ''set net:timeout 10'',
        str ''set net:reconnect-interval-base 5'',
        str ''set net:reconnect-interval-multiplier 1'',
        str (''open -u '' @ [CHR 0x22] @ ''user'' @ [CHR 0x5C] @ '' name''
             @ [CHR 0x22, CHR '','', CHR 0x22]
             @ ''pa'' @ [CHR 0x5C] @ ''$'' @ [CHR 0x5C] @ ''$'' @ [CHR 0x5C] @ ''[w''
             @ [CHR 0x5C] @ '']''
             @ [CHR 0x22, CHR '' '', CHR 0x22] @ ''sftp://host:22'' @ [CHR 0x22])]
   \<and> LFTP [(str ''host'', JStr (str ''host'')), (str ''username'', JStr (str ''user name'')),
         (str ''password'', JStr (str ''pa$$[w]'')), (str ''escape'', JBool False)]
     = Inr (lftpInit\<lparr>options := (options lftpInit)
              \<lparr>username := JStr (str ''user name''), password := JStr (str ''pa$$[w]''),
               escape := JBool False\<rparr>\<rparr>)
   \<and> baseCmd (lftpInit\<lparr>options := (options lftpInit)
              \<lparr>username := JStr (str ''user name''), password := JStr (str ''pa$$[w]''),
               escape := JBool False\<rparr>\<rparr>)
     = [str ''set net:max-retries 1'',
        str ''set net:timeout 10'',
        str ''set net:reconnect-interval-base 5'',
        str ''set net:reconnect-interval-multiplier 1'',
        str (''open -u '' @ [CHR 0x22] @ ''user name'' @ [CHR 0x22, CHR '','', CHR 0x22]
             @ ''pa$$[w]'' @ [CHR 0x22, CHR '' '', CHR 0x22] @ ''sftp://host:22''
             @ [CHR 0x22])]\<close>
proof -
  have c1: "LFTP [(str ''host'', JStr (str ''host'')),
         (str ''username'', JStr (str ''user name'')),
         (str ''password'', JStr (str ''pa$$[w]'')), (str ''protocol'', JStr (str ''sftp'')),
         (str ''autoConfirm'', JBool True)]
     = Inr (lftpInit\<lparr>options := (options lftpInit)
              \<lparr>username := JStr (str ''user name''), password := JStr (str ''pa$$[w]''),
               autoConfirm := JBool True\<rparr>\<rparr>)"
    by (simp add: LFTP_def validateOptions_def hasOwnProperty_def getprop_def js_or_def
        lftpInit_def lower_protocols string_of_nat_numerals lodash_includes_def str_eq_iff)
      (simp add: str_def)
  have c2: "LFTP [(str ''host'', JStr (str ''host'')),
         (str ''username'', JStr (str ''user name'')),
         (str ''password'', JStr (str ''pa$$[w]'')), (str ''escape'', JBool False)]
     = Inr (lftpInit\<lparr>options := (options lftpInit)
              \<lparr>username := JStr (str ''user name''), password := JStr (str ''pa$$[w]''),
               escape := JBool False\<rparr>\<rparr>)"
    by (simp add: LFTP_def validateOptions_def hasOwnProperty_def getprop_def js_or_def
        lftpInit_def lower_protocols string_of_nat_numerals lodash_includes_def str_eq_iff)
      (simp add: str_def)
  from baseCmd_sequence [OF c1] baseCmd_sequence [OF c2] c1 c2 show ?thesis
    by (simp add: lftpInit_def hasOwnProperty_def getprop_def js_or_def
        spec_escapeIfEnabled_def spec_escape_def js_whitespace_def
        string_of_nat_numerals string_of_nat_Suc_0 str_eq_iff)
      (simp add: str_def)
qed

text \<open>
  C2. For every builder whose queue is \<^verbatim>\<open>['cmd1', 'cmd2']\<close>, \<^verbatim>\<open>exec()\<close> without
  extra commands passes to \<^verbatim>\<open>lftp -c\<close> the statements of the preamble joined by
  \<^verbatim>\<open>;\<close>, followed by \<^verbatim>\<open>;cmd1;cmd2\<close>, and leaves the queue empty; a second
  \<^verbatim>\<open>exec()\<close> right after it passes the joined preamble alone.
\<close>

theorem exec_drains_queue:
  assumes "cmds b = [str ''cmd1'', str ''cmd2'']"
  shows "program (fst (exec JUndefined b)) = str ''lftp''
     \<and> arguments (fst (exec JUndefined b))
         = [str ''-c'', join (str '';'') (baseCmd b) @ str '';cmd1;cmd2'']
     \<and> cmds (snd (exec JUndefined b)) = []
     \<and> arguments (fst (exec JUndefined (snd (exec JUndefined b))))
         = [str ''-c'', join (str '';'') (baseCmd b)]"
proof -
  have snd_exec: "snd (exec JUndefined b) = b\<lparr>cmds := []\<rparr>"
    by (simp add: exec_def Let_def)
  have "map JStr (baseCmd b) @ [JStr (str ''cmd1''), JStr (str ''cmd2'')]
          = map JStr (baseCmd b @ [str ''cmd1'', str ''cmd2''])"
    by simp
  with assms have "arguments (fst (exec JUndefined b))
          = [str ''-c'', join (str '';'') (baseCmd b @ [str ''cmd1'', str ''cmd2''])]"
    by (simp add: exec_def Let_def join_map_JStr del: map_append)
  moreover have "join (str '';'') (baseCmd b @ [str ''cmd1'', str ''cmd2''])
          = join (str '';'') (baseCmd b) @ str '';cmd1;cmd2''"
    by (simp add: join_append baseCmd_nonempty) (simp add: str_def)
  moreover have "arguments (fst (exec JUndefined (b\<lparr>cmds := []\<rparr>)))
          = [str ''-c'', join (str '';'') (baseCmd b)]"
    by (simp add: exec_def Let_def join_map_JStr baseCmd_cmds_update)
  ultimately show ?thesis
    by (simp add: snd_exec) (simp add: exec_def Let_def)
qed

theorem exec_drains_queue_witness:
  \<open>cmds (lftpInit\<lparr>cmds := [str ''cmd1'', str ''cmd2'']\<rparr>) = [str ''cmd1'', str ''cmd2'']
   \<and> arguments (fst (exec JUndefined (lftpInit\<lparr>cmds := [str ''cmd1'', str ''cmd2'']\<rparr>)))
     = [str ''-c'',
        str (''set net:max-retries 1;set net:timeout 10;set net:reconnect-interval-base 5;''
        @ ''set net:reconnect-interval-multiplier 1;open -u ''
        @ [CHR 0x22] @ ''username'' @ [CHR 0x22, CHR '','', CHR 0x22] @ ''password''
        @ [CHR 0x22, CHR '' '', CHR 0x22] @ ''sftp://host:22'' @ [CHR 0x22]
        @ '';cmd1;cmd2'')]
   \<and> cmds (snd (exec JUndefined (lftpInit\<lparr>cmds := [str ''cmd1'', str ''cmd2'']\<rparr>))) = []
   \<and> arguments (fst (exec JUndefined
         (snd (exec JUndefined (lftpInit\<lparr>cmds := [str ''cmd1'', str ''cmd2'']\<rparr>)))))
     = [str ''-c'',
        str (''set net:max-retries 1;set net:timeout 10;set net:reconnect-interval-base 5;''
        @ ''set net:reconnect-interval-multiplier 1;open -u ''
        @ [CHR 0x22] @ ''username'' @ [CHR 0x22, CHR '','', CHR 0x22] @ ''password''
        @ [CHR 0x22, CHR '' '', CHR 0x22] @ ''sftp://host:22'' @ [CHR 0x22])]\<close>
proof -
  have q: "cmds (lftpInit\<lparr>cmds := [str ''cmd1'', str ''cmd2'']\<rparr>)
             = [str ''cmd1'', str ''cmd2'']"
    by simp
  have "join (str '';'') (baseCmd (lftpInit\<lparr>cmds := [str ''cmd1'', str ''cmd2'']\<rparr>))
      = str (''set net:max-retries 1;set net:timeout 10;set net:reconnect-interval-base 5;''
        @ ''set net:reconnect-interval-multiplier 1;open -u ''
        @ [CHR 0x22] @ ''username'' @ [CHR 0x22, CHR '','', CHR 0x22] @ ''password''
        @ [CHR 0x22, CHR '' '', CHR 0x22] @ ''sftp://host:22'' @ [CHR 0x22])"
    by (simp add: baseCmd_def lftpInit_def priv_escapeShell_def escapeShell_def special_def
        js_whitespace_def string_of_nat_numerals string_of_nat_Suc_0 str_def)
  with exec_drains_queue [OF q] q show ?thesis
    by (simp add: str_def)
qed

subsection \<open>The queue and the subcommand builders\<close>

text \<open>
  What the builders other than \<^verbatim>\<open>command\<close> and \<^verbatim>\<open>exit\<close> do when they return:
  they return the builder, with the queue as it was or with one entry more.
  \<^verbatim>\<open>exit\<close> does the same to the queue and returns \<^verbatim>\<open>undefined\<close>; \<^verbatim>\<open>command\<close>
  returns the builder when it returns.
\<close>

lemma raw_Return:
  "raw v b = Return r b' \<Longrightarrow> r = This \<and> (b' = b \<or> (\<exists>s. b' = b\<lparr>cmds := cmds b @ [s]\<rparr>))"
  by (cases v) (auto simp: raw_def)

lemma fail_Return: "fail m b \<noteq> Return r b'"
  by (simp add: fail_def)

lemma exit_Return:
  "exit subCmd opts b = Return r b'
   \<Longrightarrow> r = Undefined \<and> (b' = b \<or> (\<exists>s. b' = b\<lparr>cmds := cmds b @ [s]\<rparr>))"
  by (auto simp: exit_def Let_def fail_Return split: if_splits outcome.splits
      dest!: raw_Return)

lemma jobs_Return:
  "jobs opts b = Return r b'
   \<Longrightarrow> r = This \<and> (b' = b \<or> (\<exists>s. b' = b\<lparr>cmds := cmds b @ [s]\<rparr>))"
  by (auto simp: jobs_def Let_def split: option.splits dest!: raw_Return)

lemma command_Return: "command cmd args b = Return r b' \<Longrightarrow> r = This"
  by (subst (asm) command.simps)
    (auto simp: fail_Return Let_def split: if_splits outcome.splits returned.splits
      dest!: raw_Return)

lemma builders_Return:
  assumes "run c b = Return r b'"
    and "\<And>cmd args. c \<noteq> Command cmd args" and "\<And>subCmd opts. c \<noteq> Exit subCmd opts"
  shows "r = This \<and> (b' = b \<or> (\<exists>s. b' = b\<lparr>cmds := cmds b @ [s]\<rparr>))"
proof (cases c)
  case (Jobs opts)
  with assms(1) show ?thesis using jobs_Return by simp
next
  case (Bookmark subCmd opts)
  with assms(1) show ?thesis
    by (auto simp: bookmark_def Let_def fail_Return split: sum.splits dest!: raw_Return)
next
  case (Cache subCmd opts)
  with assms(1) show ?thesis
    by (auto simp: cache_def Let_def fail_Return split: sum.splits dest!: raw_Return)
next
  case (Glob patterns opts)
  with assms(1) show ?thesis
    by (auto simp: glob_def Let_def fail_Return split: if_splits dest!: raw_Return)
next
  case (Mirror remoteDir opts)
  with assms(1) show ?thesis
    by (auto simp: mirror_def Let_def fail_Return split: if_splits dest!: raw_Return)
next
  case (Command cmd args)
  with assms(2) [of cmd args] show ?thesis by simp
next
  case (Exit subCmd opts)
  with assms(3) [of subCmd opts] show ?thesis by simp
qed (use assms(1) in \<open>auto simp: alias_cmd_def at_def attach_def cat_def cd_def chmod_def
      close_def cls_def debug_def echo_def edit_def eval_cmd_def find_cmd_def get_def get1_def
      help_cmd_def kill_def lcd_def ln_def local_def lpwd_def ls_def pwd_def put_def mv_def
      rm_def rmdir_def pget_def Let_def fail_Return split: if_splits dest!: raw_Return\<close>)

text \<open>
  C10. For every value and every builder, \<^verbatim>\<open>raw(cmd)\<close> returns the builder and never
  throws; it appends \<^verbatim>\<open>cmd\<close> to the queue when \<^verbatim>\<open>cmd\<close> is a string, and for every
  other value it leaves the builder, and so the queue, as it was.
\<close>

theorem raw_total:
  "raw v b = Return This (if is_string v then b\<lparr>cmds := cmds b @ [toStr v]\<rparr> else b)"
  by (cases v) (simp_all add: raw_def)

theorem raw_total_witness:
  "raw (JNum 1) lftpInit = Return This lftpInit
   \<and> raw (JStr (str ''test 1 2 3'')) lftpInit
       = Return This (lftpInit\<lparr>cmds := [str ''test 1 2 3'']\<rparr>)"
  using raw_total [of "JNum 1" lftpInit] raw_total [of "JStr (str ''test 1 2 3'')" lftpInit]
  by (simp add: lftpInit_def)

text \<open>
  C4. For every builder method and every state of the queue, a call that leaves out a
  required argument throws the error of \<^verbatim>\<open>fail\<close> and leaves the builder as it was:
  nothing is appended, and the entries queued before are intact.
\<close>

theorem run_required_omitted:
  "required_omitted c \<Longrightarrow> \<exists>msg. run c b = Throw (Error msg) b"
proof (cases c)
  case (Command cmd args)
  assume "required_omitted c"
  with Command have "cmd = JUndefined \<or> args = JUndefined"
    by simp
  then have "\<exists>msg. command cmd args b = Throw (Error msg) b"
    by (subst command.simps) (auto simp: fail_def)
  with Command show ?thesis
    by simp
next
  case (Bookmark subCmd opts)
  assume "required_omitted c"
  with Bookmark show ?thesis by (auto simp: bookmark_def fail_def str_eq_iff)
next
  case (Cache subCmd opts)
  assume "required_omitted c"
  with Cache show ?thesis by (auto simp: cache_def fail_def str_eq_iff)
next
  case (Glob patterns opts)
  assume "required_omitted c"
  with Glob show ?thesis
    by (auto simp: glob_def fail_def hasOwnProperty_def getprop_def Let_def)
next
  case (Mirror remoteDir opts)
  assume "required_omitted c"
  with Mirror show ?thesis
    by (auto simp: mirror_def fail_def hasOwnProperty_def getprop_def Let_def)
qed (auto simp: fail_def at_def attach_def cat_def cd_def chmod_def debug_def edit_def
      eval_cmd_def exit_def get_def get1_def ln_def local_def put_def mv_def rm_def
      rmdir_def pget_def)

text \<open>
  \<^verbatim>\<open>glob('*')\<close> without options and \<^verbatim>\<open>mv('a')\<close> without a destination, on a queue that
  holds one entry.
\<close>

theorem run_required_omitted_witness:
  "required_omitted (Glob (JStr (str ''*'')) [])
   \<and> run (Glob (JStr (str ''*'')) []) (lftpInit\<lparr>cmds := [str ''cmd1'']\<rparr>)
       = Throw (Error (str
           ''glob() opts argument requires exist, notExist, and/or command properties''))
           (lftpInit\<lparr>cmds := [str ''cmd1'']\<rparr>)
   \<and> required_omitted (Mv (JStr (str ''a'')) JUndefined)
   \<and> run (Mv (JStr (str ''a'')) JUndefined) (lftpInit\<lparr>cmds := [str ''cmd1'']\<rparr>)
       = Throw (Error (str ''mv() requires dest argument''))
           (lftpInit\<lparr>cmds := [str ''cmd1'']\<rparr>)"
  using
    run_required_omitted [of "Glob (JStr (str ''*'')) []" "lftpInit\<lparr>cmds := [str ''cmd1'']\<rparr>"]
    run_required_omitted
      [of "Mv (JStr (str ''a'')) JUndefined" "lftpInit\<lparr>cmds := [str ''cmd1'']\<rparr>"]
  by (simp add: hasOwnProperty_def getprop_def glob_def mv_def fail_def str_def)

text \<open>
  C5. The claim: every builder call that does not throw returns the builder, also
  \<^verbatim>\<open>exit\<close> with a recognised subcommand. The last statement of \<^verbatim>\<open>exit\<close> lacks the
  \<^verbatim>\<open>return\<close> that every other builder has: \<^verbatim>\<open>exit('bg')\<close> queues \<^verbatim>\<open>exit bg\<close> and
  returns \<^verbatim>\<open>undefined\<close>.
\<close>

theorem exit_returns_undefined:
  "run (Exit (JStr (str ''bg'')) []) lftpInit
     = Return Undefined (lftpInit\<lparr>cmds := [str ''exit bg'']\<rparr>)"
  by (simp add: exit_def raw_def array_join_def join_elem_def push_if_def hasOwnProperty_def
      lftpInit_def str_def)

text \<open>
  C6. The claim: every builder call appends at most one entry, \<^verbatim>\<open>command\<close> included.
  \<^verbatim>\<open>command\<close> runs the named builder to compose its string and does not take the
  entry of that builder off the queue again: \<^verbatim>\<open>command('echo', 'test')\<close> on the empty
  queue leaves the two entries \<^verbatim>\<open>echo test\<close> and \<^verbatim>\<open>command echo test\<close>.
\<close>

theorem command_appends_two:
  "run (Command (JStr (str ''echo'')) (JStr (str ''test''))) lftpInit
     = Return This (lftpInit\<lparr>cmds := [str ''echo test'', str ''command echo test'']\<rparr>)
   \<and> length (cmds (lftpInit\<lparr>cmds := [str ''echo test'', str ''command echo test'']\<rparr>))
       = length (cmds lftpInit) + 2"
proof -
  have "command (JStr (str ''echo'')) (JStr (str ''test'')) lftpInit
     = Return This (lftpInit\<lparr>cmds := [str ''echo test'', str ''command echo test'']\<rparr>)"
    by (subst command.simps)
      (simp add: invoke_def echo_def priv_escapeShell_def escapeShell_def raw_def special_def
        js_whitespace_def lodash_last_def lftpInit_def str_def)
  then show ?thesis
    by (simp add: lftpInit_def)
qed


end
